theory Spec2Isabelle
  imports Main "HOL-Library.Word"
begin

section \<open>JavaScript strings\<close>

text \<open>
  A JavaScript string is a sequence of UTF-16 code units. The string literals
  of the component \<^verbatim>\<open>ResultCard\<close> are made of ASCII characters; \<open>str\<close> turns
  such a literal into its code units.
\<close>

type_synonym jschar = "16 word"
type_synonym jsstring = "jschar list"

definition str :: "string \<Rightarrow> jsstring" where
  "str cs = map of_char cs"

text \<open>
  Index normalisation shared by \<^verbatim>\<open>String.prototype.slice\<close> and
  \<^verbatim>\<open>Array.prototype.slice\<close>: a negative index counts from the end, and
  every index is clamped to \<open>[0, len]\<close>.
\<close>

definition relative_index :: "nat \<Rightarrow> int \<Rightarrow> nat" where
  "relative_index len i =
     (if i < 0 then nat (max (int len + i) 0) else min (nat i) len)"

text \<open>\<^verbatim>\<open>xs.slice(start, end)\<close>; \<open>None\<close> is an omitted \<^verbatim>\<open>end\<close>.\<close>

definition slice_js :: "'a list \<Rightarrow> int \<Rightarrow> int option \<Rightarrow> 'a list" where
  "slice_js xs start end =
     (let len = length xs;
          from = relative_index len start;
          to = (case end of None \<Rightarrow> len | Some e \<Rightarrow> relative_index len e)
      in take (to - from) (drop from xs))"

text \<open>\<^verbatim>\<open>s.charAt(pos)\<close>: the code unit at \<open>pos\<close> as a string, or the empty string.\<close>

definition charAt :: "jsstring \<Rightarrow> int \<Rightarrow> jsstring" where
  "charAt s pos = (if pos < 0 \<or> int (length s) \<le> pos then [] else [s ! nat pos])"

definition is_ascii :: "jschar \<Rightarrow> bool" where
  "is_ascii c = (c < 128)"

definition ascii_upper :: "jschar \<Rightarrow> jschar" where
  "ascii_upper c = (if 97 \<le> c \<and> c \<le> 122 then c - 32 else c)"

text \<open>
  \<^verbatim>\<open>s.toUpperCase()\<close>. On a string of ASCII code units the Unicode case mapping
  sends \<^verbatim>\<open>a\<close>..\<^verbatim>\<open>z\<close> to \<^verbatim>\<open>A\<close>..\<^verbatim>\<open>Z\<close> and fixes everything else. The mapping of
  the other strings comes from the Unicode tables of the host, which are the
  parameter \<open>uc\<close> (it may change the length: the upper case of U+00DF is
  \<^verbatim>\<open>SS\<close>).
\<close>

definition toUpperCase :: "(jsstring \<Rightarrow> jsstring) \<Rightarrow> jsstring \<Rightarrow> jsstring" where
  "toUpperCase uc s = (if list_all is_ascii s then map ascii_upper s else uc s)"

text \<open>
  The ECMAScript productions \<^verbatim>\<open>LineTerminator\<close> and \<^verbatim>\<open>WhiteSpace\<close>. The
  regular expression escape \<^verbatim>\<open>\s\<close> and \<^verbatim>\<open>String.prototype.trim\<close> both use
  their union.
\<close>

definition is_line_terminator :: "jschar \<Rightarrow> bool" where
  "is_line_terminator c = (c = 0x000A \<or> c = 0x000D \<or> c = 0x2028 \<or> c = 0x2029)"

definition is_white_space :: "jschar \<Rightarrow> bool" where
  "is_white_space c =
     (c = 0x0009 \<or> c = 0x000B \<or> c = 0x000C \<or> c = 0x0020 \<or> c = 0x00A0 \<or> c = 0x1680
      \<or> (0x2000 \<le> c \<and> c \<le> 0x200A) \<or> c = 0x202F \<or> c = 0x205F \<or> c = 0x3000
      \<or> c = 0xFEFF)"

definition is_space :: "jschar \<Rightarrow> bool" where
  "is_space c = (is_white_space c \<or> is_line_terminator c)"

text \<open>\<^verbatim>\<open>s.trim()\<close>\<close>

definition trim :: "jsstring \<Rightarrow> jsstring" where
  "trim s = rev (dropWhile is_space (rev (dropWhile is_space s)))"

text \<open>
  \<^verbatim>\<open>s.split(sep)\<close> for a string separator and no limit. \<open>split_from\<close> scans
  for the next occurrence of the separator; \<open>tok\<close> is the text read since the
  last one.
\<close>

fun split_from :: "jsstring \<Rightarrow> jsstring \<Rightarrow> jsstring \<Rightarrow> jsstring list" where
  "split_from sep tok [] = [tok]"
| "split_from sep tok (c # cs) =
     (if take (length sep) (c # cs) = sep
      then tok # split_from sep [] (drop (length sep - 1) cs)
      else split_from sep (tok @ [c]) cs)"

definition split :: "jsstring \<Rightarrow> jsstring \<Rightarrow> jsstring list" where
  "split s sep = (if sep = [] then map (\<lambda>c. [c]) s else split_from sep [] s)"

text \<open>\<^verbatim>\<open>xs.join(sep)\<close> for an array of strings.\<close>

fun join :: "jsstring list \<Rightarrow> jsstring \<Rightarrow> jsstring" where
  "join [] sep = []"
| "join [x] sep = x"
| "join (x # y # ys) sep = x @ sep @ join (y # ys) sep"

text \<open>
  \<^verbatim>\<open>s.padStart(maxLength, fillString)\<close>: the filler is repeated and cut to the
  missing length.
\<close>

definition padStart :: "jsstring \<Rightarrow> nat \<Rightarrow> jsstring \<Rightarrow> jsstring" where
  "padStart s maxLength fillString =
     (if maxLength \<le> length s \<or> fillString = [] then s
      else take (maxLength - length s) (concat (replicate (maxLength - length s) fillString)) @ s)"

section \<open>Regular expressions\<close>

text \<open>
  The fragment of ECMAScript regular expressions the component uses: a pattern
  is a sequence of pieces; a piece is an atom (one literal code unit, the dot,
  or a negated character class of ranges and \<^verbatim>\<open>\s\<close>), a lazily starred atom
  \<^verbatim>\<open>a*?\<close>, or the opening or closing parenthesis of the capture group with
  the given number. No flag other than \<^verbatim>\<open>g\<close> is set, so the dot matches every
  code unit but the line terminators.
\<close>

datatype class_item = ClassRange jschar jschar | ClassSpace

datatype atom = Chr jschar | Dot | NegClass "class_item list"

datatype piece = Atom atom | LazyStar atom | GroupOpen nat | GroupClose nat

type_synonym regex = "piece list"

fun class_item_matches :: "class_item \<Rightarrow> jschar \<Rightarrow> bool" where
  "class_item_matches (ClassRange lo hi) c = (lo \<le> c \<and> c \<le> hi)"
| "class_item_matches ClassSpace c = is_space c"

fun atom_matches :: "atom \<Rightarrow> jschar \<Rightarrow> bool" where
  "atom_matches (Chr d) c = (c = d)"
| "atom_matches Dot c = (\<not> is_line_terminator c)"
| "atom_matches (NegClass items) c = (\<not> list_ex (\<lambda>i. class_item_matches i c) items)"

text \<open>
  The backtracking matcher. \<open>run p s pos starts caps\<close> matches the pattern
  \<open>p\<close> against the input \<open>s\<close>, where \<open>pos\<close> code units of the match have
  been read already; it returns the length of the match and the captures
  (start and end offsets in the match). A lazy star first tries the rest of the
  pattern, and reads one more code unit only when that fails.
\<close>

type_synonym captures = "nat \<Rightarrow> (nat \<times> nat) option"

fun run :: "regex \<Rightarrow> jsstring \<Rightarrow> nat \<Rightarrow> (nat \<Rightarrow> nat option) \<Rightarrow> captures
            \<Rightarrow> (nat \<times> captures) option" where
  "run [] s pos starts caps = Some (pos, caps)"
| "run (Atom a # p) s pos starts caps =
     (case s of
        [] \<Rightarrow> None
      | c # cs \<Rightarrow> if atom_matches a c then run p cs (Suc pos) starts caps else None)"
| "run (LazyStar a # p) s pos starts caps =
     (case run p s pos starts caps of
        Some r \<Rightarrow> Some r
      | None \<Rightarrow>
          (case s of
             [] \<Rightarrow> None
           | c # cs \<Rightarrow>
               if atom_matches a c then run (LazyStar a # p) cs (Suc pos) starts caps
               else None))"
| "run (GroupOpen k # p) s pos starts caps = run p s pos (starts(k \<mapsto> pos)) caps"
| "run (GroupClose k # p) s pos starts caps =
     (case starts k of
        None \<Rightarrow> None
      | Some b \<Rightarrow> run p s pos starts (caps(k \<mapsto> (b, pos))))"

fun is_open :: "piece \<Rightarrow> bool" where
  "is_open (GroupOpen k) = True"
| "is_open _ = False"

text \<open>
  One match attempt at the start of \<open>s\<close>: the length of the match and the text
  of each capture group (\<open>None\<close> for a group that took no part).
\<close>

definition exec_here :: "regex \<Rightarrow> jsstring \<Rightarrow> (nat \<times> jsstring option list) option" where
  "exec_here re s =
     (case run re s 0 (\<lambda>k. None) (\<lambda>k. None) of
        None \<Rightarrow> None
      | Some (n, caps) \<Rightarrow>
          Some (n, map (\<lambda>k. map_option (\<lambda>(b, e). take (e - b) (drop b s)) (caps k))
                     [1 ..< Suc (length (filter is_open re))]))"

definition is_digit :: "jschar \<Rightarrow> bool" where
  "is_digit c = (48 \<le> c \<and> c \<le> 57)"

definition digit_value :: "jschar \<Rightarrow> nat" where
  "digit_value c = unat (c - 48)"

definition capture_text :: "jsstring option list \<Rightarrow> nat \<Rightarrow> jsstring" where
  "capture_text caps i = (case caps ! (i - 1) of None \<Rightarrow> [] | Some x \<Rightarrow> x)"

text \<open>
  The abstract operation \<^verbatim>\<open>GetSubstitution\<close> without named groups: in the
  replacement template, \<^verbatim>\<open>$$\<close> is a dollar sign (code unit 36), \<^verbatim>\<open>$`\<close> the
  text before the match, \<^verbatim>\<open>$&\<close> the match, \<^verbatim>\<open>$'\<close> the text after it, and
  \<^verbatim>\<open>$n\<close> or \<^verbatim>\<open>$nn\<close> the capture with that number when there is one; everything
  else stands for itself.
\<close>

fun get_substitution ::
  "jsstring \<Rightarrow> jsstring \<Rightarrow> jsstring \<Rightarrow> jsstring option list \<Rightarrow> jsstring \<Rightarrow> jsstring" where
  "get_substitution pre m post caps [] = []"
| "get_substitution pre m post caps [c] = [c]"
| "get_substitution pre m post caps (c # d # t) =
     (if c \<noteq> 36 then c # get_substitution pre m post caps (d # t)
      else if d = 36 then 36 # get_substitution pre m post caps t
      else if d = 96 then pre @ get_substitution pre m post caps t
      else if d = 38 then m @ get_substitution pre m post caps t
      else if d = 39 then post @ get_substitution pre m post caps t
      else if is_digit d then
        (case t of
           [] \<Rightarrow>
             if 1 \<le> digit_value d \<and> digit_value d \<le> length caps
             then capture_text caps (digit_value d)
             else [c, d]
         | e # u \<Rightarrow>
             if is_digit e \<and> 10 * digit_value d + digit_value e \<le> length caps
             then
               (if 1 \<le> 10 * digit_value d + digit_value e
                then capture_text caps (10 * digit_value d + digit_value e)
                       @ get_substitution pre m post caps u
                else c # d # e # get_substitution pre m post caps u)
             else if 1 \<le> digit_value d \<and> digit_value d \<le> length caps
             then capture_text caps (digit_value d) @ get_substitution pre m post caps (e # u)
             else c # d # get_substitution pre m post caps (e # u))
      else c # get_substitution pre m post caps (d # t))"

text \<open>
  \<^verbatim>\<open>s.replace(re, template)\<close> for a pattern with the flag \<^verbatim>\<open>g\<close>: the matches
  are looked for from left to right, each search starting where the previous
  match ended (one code unit further after an empty match); the text between
  the matches is kept and each match is replaced by its substitution. \<open>pre\<close>
  is the part of the string already passed.
\<close>

fun replace_from :: "regex \<Rightarrow> jsstring \<Rightarrow> jsstring \<Rightarrow> jsstring \<Rightarrow> jsstring" where
  "replace_from re tpl pre [] =
     (case exec_here re [] of
        None \<Rightarrow> []
      | Some (n, caps) \<Rightarrow> get_substitution pre [] [] caps tpl)"
| "replace_from re tpl pre (c # cs) =
     (case exec_here re (c # cs) of
        None \<Rightarrow> c # replace_from re tpl (pre @ [c]) cs
      | Some (n, caps) \<Rightarrow>
          get_substitution pre (take n (c # cs)) (drop n (c # cs)) caps tpl @
          (if n = 0 then c # replace_from re tpl (pre @ [c]) cs
           else replace_from re tpl (pre @ take n (c # cs)) (drop (n - 1) cs)))"

definition replace :: "jsstring \<Rightarrow> regex \<Rightarrow> jsstring \<Rightarrow> jsstring" where
  "replace s re tpl = replace_from re tpl [] s"

section \<open>Numbers and dates\<close>

text \<open>
  The numbers of the component are the results of the \<^verbatim>\<open>Date\<close> getters:
  integers, or \<^verbatim>\<open>NaN\<close> for an invalid date.
\<close>

datatype number = NaN | Finite int

fun plus_number :: "number \<Rightarrow> number \<Rightarrow> number" where
  "plus_number (Finite a) (Finite b) = Finite (a + b)"
| "plus_number _ _ = NaN"

fun nat_digits :: "nat \<Rightarrow> jsstring" where
  "nat_digits n =
     (if n < 10 then [48 + of_nat n] else nat_digits (n div 10) @ [48 + of_nat (n mod 10)])"

declare nat_digits.simps [simp del]

text \<open>\<^verbatim>\<open>String(x)\<close> for such a number: decimal digits, with a sign when negative.\<close>

fun String_of :: "number \<Rightarrow> jsstring" where
  "String_of NaN = str ''NaN''"
| "String_of (Finite i) = (if i < 0 then 45 # nat_digits (nat (- i)) else nat_digits (nat i))"

text \<open>
  The calendar of ECMAScript (section "Time Values and Time Range"): a time
  value is a number of milliseconds since 1 January 1970 UTC.
\<close>

definition msPerDay :: int where
  "msPerDay = 86400000"

definition Day :: "int \<Rightarrow> int" where
  "Day t = t div msPerDay"

definition DaysInYear :: "int \<Rightarrow> int" where
  "DaysInYear y =
     (if y mod 4 \<noteq> 0 then 365 else if y mod 100 \<noteq> 0 then 366
      else if y mod 400 \<noteq> 0 then 365 else 366)"

definition DayFromYear :: "int \<Rightarrow> int" where
  "DayFromYear y =
     365 * (y - 1970) + (y - 1969) div 4 - (y - 1901) div 100 + (y - 1601) div 400"

definition leap_of_year :: "int \<Rightarrow> int" where
  "leap_of_year y = (if DaysInYear y = 366 then 1 else 0)"

text \<open>
  ECMAScript defines \<^verbatim>\<open>YearFromTime(t)\<close> as the largest year \<open>y\<close> with
  \<open>DayFromYear y \<le> Day t\<close>. \<open>year_of_day\<close> computes it from the day number,
  counted from 1 January 1601, by cycles of 400, 100, 4 and 1 years (lemma
  \<open>year_of_day_bounds\<close> below shows that it is that year).
\<close>

definition year_of_day :: "int \<Rightarrow> int" where
  "year_of_day d =
     (let n = d + 134774;
          n400 = n div 146097;
          r = n mod 146097;
          n100 = min (r div 36524) 3;
          r2 = r - n100 * 36524;
          n4 = r2 div 1461;
          r3 = r2 mod 1461;
          n1 = min (r3 div 365) 3
      in 1601 + 400 * n400 + 100 * n100 + 4 * n4 + n1)"

definition YearFromTime :: "int \<Rightarrow> int" where
  "YearFromTime t = year_of_day (Day t)"

definition DayWithinYear :: "int \<Rightarrow> int" where
  "DayWithinYear t = Day t - DayFromYear (YearFromTime t)"

definition InLeapYear :: "int \<Rightarrow> int" where
  "InLeapYear t = leap_of_year (YearFromTime t)"

definition MonthFromTime :: "int \<Rightarrow> int" where
  "MonthFromTime t =
     (let d = DayWithinYear t; leap = InLeapYear t
      in if d < 31 then 0
         else if d < 59 + leap then 1
         else if d < 90 + leap then 2
         else if d < 120 + leap then 3
         else if d < 151 + leap then 4
         else if d < 181 + leap then 5
         else if d < 212 + leap then 6
         else if d < 243 + leap then 7
         else if d < 273 + leap then 8
         else if d < 304 + leap then 9
         else if d < 334 + leap then 10
         else 11)"

definition DateFromTime :: "int \<Rightarrow> int" where
  "DateFromTime t =
     (let d = DayWithinYear t; leap = InLeapYear t; m = MonthFromTime t
      in if m = 0 then d + 1
         else if m = 1 then d - 30
         else if m = 2 then d - 58 - leap
         else if m = 3 then d - 89 - leap
         else if m = 4 then d - 119 - leap
         else if m = 5 then d - 150 - leap
         else if m = 6 then d - 180 - leap
         else if m = 7 then d - 211 - leap
         else if m = 8 then d - 242 - leap
         else if m = 9 then d - 272 - leap
         else if m = 10 then d - 303 - leap
         else d - 333 - leap)"

text \<open>
  \<^verbatim>\<open>MakeDay\<close>, \<^verbatim>\<open>MakeTime\<close> and \<^verbatim>\<open>MakeDate\<close> for a month in \<open>0..11\<close> and a day of
  that month.
\<close>

definition month_start :: "int \<Rightarrow> int \<Rightarrow> int" where
  "month_start m leap =
     (if m = 0 then 0
      else if m = 1 then 31
      else if m = 2 then 59 + leap
      else if m = 3 then 90 + leap
      else if m = 4 then 120 + leap
      else if m = 5 then 151 + leap
      else if m = 6 then 181 + leap
      else if m = 7 then 212 + leap
      else if m = 8 then 243 + leap
      else if m = 9 then 273 + leap
      else if m = 10 then 304 + leap
      else 334 + leap)"

definition days_in_month :: "int \<Rightarrow> int \<Rightarrow> int" where
  "days_in_month year month =
     (if month = 11 then 31
      else month_start (month + 1) (leap_of_year year) - month_start month (leap_of_year year))"

definition MakeDay :: "int \<Rightarrow> int \<Rightarrow> int \<Rightarrow> int" where
  "MakeDay year month date = DayFromYear year + month_start month (leap_of_year year) + date - 1"

definition MakeTime :: "int \<Rightarrow> int \<Rightarrow> int \<Rightarrow> int \<Rightarrow> int" where
  "MakeTime hour minute sec ms = hour * 3600000 + minute * 60000 + sec * 1000 + ms"

definition MakeDate :: "int \<Rightarrow> int \<Rightarrow> int" where
  "MakeDate day time = day * msPerDay + time"

definition substring :: "jsstring \<Rightarrow> nat \<Rightarrow> nat \<Rightarrow> jsstring" where
  "substring s from to = take (to - from) (drop from s)"

definition decimal :: "jsstring \<Rightarrow> int option" where
  "decimal ds =
     (if ds \<noteq> [] \<and> list_all is_digit ds
      then Some (foldl (\<lambda>n d. 10 * n + int (digit_value d)) 0 ds)
      else None)"

text \<open>
  \<^verbatim>\<open>Date.parse\<close>. ECMAScript fixes the value of a string in the date-time
  format \<^verbatim>\<open>YYYY-MM-DDTHH:mm:ssZ\<close> whose fields name an existing day and time of
  day; \<open>parse_utc_timestamp\<close> reads those. What any other string parses to
  (another form of the format, a format of the host's own, or \<^verbatim>\<open>NaN\<close>) is left
  to the host: the parameter \<open>host_parse\<close>.
\<close>

definition parse_utc_timestamp :: "jsstring \<Rightarrow> int option" where
  "parse_utc_timestamp s =
     (if length s = 20 \<and> s ! 4 = of_char CHR ''-'' \<and> s ! 7 = of_char CHR ''-''
         \<and> s ! 10 = of_char CHR ''T'' \<and> s ! 13 = of_char CHR '':''
         \<and> s ! 16 = of_char CHR '':'' \<and> s ! 19 = of_char CHR ''Z''
      then
        (case (decimal (substring s 0 4), decimal (substring s 5 7), decimal (substring s 8 10),
               decimal (substring s 11 13), decimal (substring s 14 16),
               decimal (substring s 17 19)) of
           (Some year, Some month, Some date, Some hour, Some minute, Some sec) \<Rightarrow>
             if 1 \<le> month \<and> month \<le> 12 \<and> 1 \<le> date \<and> date \<le> days_in_month year (month - 1)
                \<and> hour \<le> 23 \<and> minute \<le> 59 \<and> sec \<le> 59
             then Some (MakeDate (MakeDay year (month - 1) date) (MakeTime hour minute sec 0))
             else None
         | _ \<Rightarrow> None)
      else None)"

definition Date_parse :: "(jsstring \<Rightarrow> number) \<Rightarrow> jsstring \<Rightarrow> number" where
  "Date_parse host_parse s =
     (case parse_utc_timestamp s of Some t \<Rightarrow> Finite t | None \<Rightarrow> host_parse s)"

definition TimeClip :: "number \<Rightarrow> number" where
  "TimeClip time =
     (case time of
        NaN \<Rightarrow> NaN
      | Finite t \<Rightarrow> if 8640000000000000 < \<bar>t\<bar> then NaN else Finite t)"

text \<open>
  \<^verbatim>\<open>new Date(s)\<close> for a string \<open>s\<close>: the time value of the date object, \<^verbatim>\<open>NaN\<close>
  for an invalid date.
\<close>

definition new_Date :: "(jsstring \<Rightarrow> number) \<Rightarrow> jsstring \<Rightarrow> number" where
  "new_Date host_parse s = TimeClip (Date_parse host_parse s)"

text \<open>
  The getters read the local time: \<open>tza t\<close> is the offset of the host's time
  zone from UTC at the time \<open>t\<close>, in milliseconds.
\<close>

definition LocalTime :: "(int \<Rightarrow> int) \<Rightarrow> int \<Rightarrow> int" where
  "LocalTime tza t = t + tza t"

definition getFullYear :: "(int \<Rightarrow> int) \<Rightarrow> number \<Rightarrow> number" where
  "getFullYear tza date =
     (case date of NaN \<Rightarrow> NaN | Finite t \<Rightarrow> Finite (YearFromTime (LocalTime tza t)))"

definition getMonth :: "(int \<Rightarrow> int) \<Rightarrow> number \<Rightarrow> number" where
  "getMonth tza date =
     (case date of NaN \<Rightarrow> NaN | Finite t \<Rightarrow> Finite (MonthFromTime (LocalTime tza t)))"

definition getDate :: "(int \<Rightarrow> int) \<Rightarrow> number \<Rightarrow> number" where
  "getDate tza date =
     (case date of NaN \<Rightarrow> NaN | Finite t \<Rightarrow> Finite (DateFromTime (LocalTime tza t)))"

section \<open>The component ResultCard\<close>

text \<open>The property \<^verbatim>\<open>result\<close> of the component, a search result.\<close>

record SearchResult =
  uid :: jsstring
  title :: jsstring
  snippet :: jsstring
  datetime :: jsstring
  start_time :: jsstring
  link :: jsstring
  authority :: jsstring

text \<open>The component instance \<^verbatim>\<open>this\<close>: its only data is the property.\<close>

record component =
  result :: SearchResult

subsection \<open>The computed property highlightedSnippet\<close>




subsection \<open>The file name of a transcript\<close>

text \<open>
  \<^verbatim>\<open>let authority = this.result.authority.charAt(0).toUpperCase()
                  + this.result.authority.slice(1);\<close>
\<close>

definition authority_segment :: "(jsstring \<Rightarrow> jsstring) \<Rightarrow> jsstring \<Rightarrow> jsstring" where
  "authority_segment uc a = toUpperCase uc (charAt a 0) @ slice_js a 1 None"

text \<open>The pattern \<^verbatim>\<open>/[^a-zA-Z0-9\s]/g\<close>.\<close>

definition strip_re :: regex where
  "strip_re =
     [Atom (NegClass [ClassRange (of_char CHR ''a'') (of_char CHR ''z''),
                      ClassRange (of_char CHR ''A'') (of_char CHR ''Z''),
                      ClassRange (of_char CHR ''0'') (of_char CHR ''9''),
                      ClassSpace])]"

text \<open>
  \<^verbatim>\<open>let title = this.result.title.replace(/[^a-zA-Z0-9\s]/g, '').trim()
                  .split(' ').slice(0, 3).join('');\<close>
\<close>

definition title_segment :: "jsstring \<Rightarrow> jsstring" where
  "title_segment t =
     join (slice_js (split (trim (replace t strip_re (str ''''))) (str '' '')) 0 (Some 3))
       (str '''')"

text \<open>
  \<^verbatim>\<open>const date = new Date(this.result.datetime);
  const day = String(date.getDate()).padStart(2, '0');
  const month = String(date.getMonth() + 1).padStart(2, '0');
  const year = String(date.getFullYear());
  const date_str = `${year}-${month}-${day}`;\<close>
\<close>

definition date_str :: "(jsstring \<Rightarrow> number) \<Rightarrow> (int \<Rightarrow> int) \<Rightarrow> jsstring \<Rightarrow> jsstring" where
  "date_str host_parse tza dt =
     (let date = new_Date host_parse dt;
          day = padStart (String_of (getDate tza date)) 2 (str ''0'');
          month = padStart (String_of (plus_number (getMonth tza date) (Finite 1))) 2 (str ''0'');
          year = String_of (getFullYear tza date)
      in year @ str ''-'' @ month @ str ''-'' @ day)"

subsection \<open>The host: configuration, network, browser\<close>

type_synonym bytes = "8 word list"

text \<open>What the network does with a request: no response, or a status and a body.\<close>

datatype http_outcome = NetworkError | Response nat bytes

text \<open>The value a rejected \<^verbatim>\<open>axios.get\<close> throws at the \<^verbatim>\<open>await\<close>.\<close>

datatype exn = AxiosError http_outcome

datatype completion = Returned | Thrown exn

text \<open>
  What the component takes from its environment: the build-time constant
  \<^verbatim>\<open>API_BASE\<close>, the answer of the network to a \<^verbatim>\<open>GET\<close> of a URL, the Unicode
  upper-case mapping, the host's part of \<^verbatim>\<open>Date.parse\<close>, and the local time
  zone.
\<close>

record host =
  API_BASE :: jsstring
  network :: "jsstring \<Rightarrow> http_outcome"
  unicode_upper :: "jsstring \<Rightarrow> jsstring"
  host_date_parse :: "jsstring \<Rightarrow> number"
  LocalTZA :: "int \<Rightarrow> int"

text \<open>
  What can be observed of a run, in order: a request sent, an object URL
  created, a file saved by the browser under a name, a navigation to an object
  URL, a failed load of a revoked object URL, an object URL revoked, a console
  error, a blocking alert.
\<close>

datatype event =
    Request jsstring
  | Created nat
  | Saved jsstring bytes
  | Navigated nat
  | LoadFailed nat
  | Revoked nat
  | ConsoleError jsstring exn
  | Alert jsstring

text \<open>An \<^verbatim>\<open>a\<close> element: its identity and the two attributes the component sets.\<close>

record anchor =
  node :: nat
  href :: "nat option"
  download :: "jsstring option"

text \<open>
  The browser: the blob URL store (object URLs are numbered in the order of
  their creation), the number of elements created, the children of
  \<^verbatim>\<open>document.body\<close>, and the events so far.
\<close>

record world =
  blob_store :: "nat \<Rightarrow> bytes option"
  urls_created :: nat
  nodes_created :: nat
  body :: "anchor list"
  trace :: "event list"

text \<open>
  \<^verbatim>\<open>await axios.get(url, { responseType: 'blob' })\<close>: the promise is rejected
  when there is no response or when the status is outside \<open>200..299\<close>;
  otherwise \<^verbatim>\<open>response.data\<close> is a blob of the body.
\<close>

definition axios_get :: "host \<Rightarrow> jsstring \<Rightarrow> world \<Rightarrow> (exn + bytes) \<times> world" where
  "axios_get h url w =
     (let w' = w\<lparr>trace := trace w @ [Request url]\<rparr>
      in case network h url of
           NetworkError \<Rightarrow> (Inl (AxiosError NetworkError), w')
         | Response status data \<Rightarrow>
             if 200 \<le> status \<and> status < 300 then (Inr data, w')
             else (Inl (AxiosError (Response status data)), w'))"

text \<open>\<^verbatim>\<open>new Blob(parts)\<close> for parts that are blobs: their bytes, one after the other.\<close>

definition new_Blob :: "bytes list \<Rightarrow> bytes" where
  "new_Blob parts = concat parts"

definition createObjectURL :: "bytes \<Rightarrow> world \<Rightarrow> nat \<times> world" where
  "createObjectURL blob w =
     (urls_created w,
      w\<lparr>blob_store := (blob_store w)(urls_created w \<mapsto> blob),
        urls_created := Suc (urls_created w),
        trace := trace w @ [Created (urls_created w)]\<rparr>)"

definition revokeObjectURL :: "nat \<Rightarrow> world \<Rightarrow> world" where
  "revokeObjectURL u w =
     w\<lparr>blob_store := (blob_store w)(u := None), trace := trace w @ [Revoked u]\<rparr>"

text \<open>\<^verbatim>\<open>document.createElement('a')\<close>\<close>

definition createElement_a :: "world \<Rightarrow> anchor \<times> world" where
  "createElement_a w =
     (\<lparr>node = nodes_created w, href = None, download = None\<rparr>,
      w\<lparr>nodes_created := Suc (nodes_created w)\<rparr>)"

text \<open>\<^verbatim>\<open>document.body.appendChild(a)\<close> and \<^verbatim>\<open>a.remove()\<close>\<close>

definition appendChild :: "anchor \<Rightarrow> world \<Rightarrow> world" where
  "appendChild a w = w\<lparr>body := filter (\<lambda>b. node b \<noteq> node a) (body w) @ [a]\<rparr>"

definition remove :: "anchor \<Rightarrow> world \<Rightarrow> world" where
  "remove a w = w\<lparr>body := filter (\<lambda>b. node b \<noteq> node a) (body w)\<rparr>"

text \<open>
  \<^verbatim>\<open>a.click()\<close>: the browser loads the object URL of \<^verbatim>\<open>href\<close> from the blob URL
  store and, when the element has a \<^verbatim>\<open>download\<close> attribute, saves the content
  as a file; \<open>Saved\<close> records the file name the attribute asks for.
\<close>

definition click :: "anchor \<Rightarrow> world \<Rightarrow> world" where
  "click a w =
     (case href a of
        None \<Rightarrow> w
      | Some u \<Rightarrow>
          (case blob_store w u of
             None \<Rightarrow> w\<lparr>trace := trace w @ [LoadFailed u]\<rparr>
           | Some content \<Rightarrow>
               (case download a of
                  None \<Rightarrow> w\<lparr>trace := trace w @ [Navigated u]\<rparr>
                | Some name \<Rightarrow> w\<lparr>trace := trace w @ [Saved name content]\<rparr>)))"

definition console_error :: "jsstring \<Rightarrow> exn \<Rightarrow> world \<Rightarrow> world" where
  "console_error msg e w = w\<lparr>trace := trace w @ [ConsoleError msg e]\<rparr>"

definition alert :: "jsstring \<Rightarrow> world \<Rightarrow> world" where
  "alert msg w = w\<lparr>trace := trace w @ [Alert msg]\<rparr>"

subsection \<open>The method downloadTranscript\<close>

text \<open>\<^verbatim>\<open>const filename = `${authority}-${title}-[${date_str}].txt`;\<close>\<close>

definition filename :: "host \<Rightarrow> SearchResult \<Rightarrow> jsstring" where
  "filename h r =
     authority_segment (unicode_upper h) (authority r) @ str ''-'' @ title_segment (title r)
       @ str ''-['' @ date_str (host_date_parse h) (LocalTZA h) (datetime r) @ str ''].txt''"

text \<open>\<^verbatim>\<open>`${API_BASE}/meetings/download_transcript/${this.result.uid}`\<close>\<close>

definition transcript_url :: "host \<Rightarrow> component \<Rightarrow> jsstring" where
  "transcript_url h this = API_BASE h @ str ''/meetings/download_transcript/'' @ uid (result this)"

text \<open>
  The body of the \<^verbatim>\<open>try\<close> block: \<open>Inl\<close> is an exception on its way to the
  \<^verbatim>\<open>catch\<close>. The fields of the search result are strings, so that the string
  and date operations do not throw, and the calls into a browser that has a
  document body do not throw either: the only exception is a rejected request.
\<close>

definition try_block :: "host \<Rightarrow> component \<Rightarrow> world \<Rightarrow> (exn + unit) \<times> world" where
  "try_block h this w =
     (case axios_get h (transcript_url h this) w of
        (Inl e, w1) \<Rightarrow> (Inl e, w1)
      | (Inr data, w1) \<Rightarrow>
          (let name = filename h (result this);
               (url, w2) = createObjectURL (new_Blob [data]) w1;
               (link0, w3) = createElement_a w2;
               link1 = link0\<lparr>href := Some url\<rparr>;
               link2 = link1\<lparr>download := Some name\<rparr>;
               w4 = appendChild link2 w3;
               w5 = click link2 w4;
               w6 = remove link2 w5;
               w7 = revokeObjectURL url w6
           in (Inr (), w7)))"

text \<open>
  \<^verbatim>\<open>async downloadTranscript() { try { ... } catch (error) {
      console.error('Error downloading transcript:', error);
      alert('Failed to download transcript. Please try again.');
  } }\<close>
  The result is how the call completes, the component afterwards and the
  browser afterwards.
\<close>

definition downloadTranscript ::
  "host \<Rightarrow> component \<Rightarrow> world \<Rightarrow> completion \<times> component \<times> world" where
  "downloadTranscript h this w =
     (case try_block h this w of
        (Inr u, w') \<Rightarrow> (Returned, this, w')
      | (Inl error, w') \<Rightarrow>
          (Returned, this,
           alert (str ''Failed to download transcript. Please try again.'')
             (console_error (str ''Error downloading transcript:'') error w')))"

text \<open>The events a call adds to the trace.\<close>

definition new_events :: "host \<Rightarrow> component \<Rightarrow> world \<Rightarrow> event list" where
  "new_events h this w =
     drop (length (trace w)) (trace (snd (snd (downloadTranscript h this w))))"

section \<open>Notions used in the statements\<close>

text \<open>
  The outcomes of a request that count as a failed fetch: no response, or a
  status that is not \<open>2xx\<close>.
\<close>

definition rejected :: "http_outcome \<Rightarrow> bool" where
  "rejected out =
     (case out of NetworkError \<Rightarrow> True | Response status data \<Rightarrow> \<not> (200 \<le> status \<and> status < 300))"

text \<open>
  The code units that \<^verbatim>\<open>/[^a-zA-Z0-9\s]/g\<close> does not match: ASCII letters and
  digits, and whitespace.
\<close>

definition is_alnum :: "jschar \<Rightarrow> bool" where
  "is_alnum c = ((97 \<le> c \<and> c \<le> 122) \<or> (65 \<le> c \<and> c \<le> 90) \<or> (48 \<le> c \<and> c \<le> 57))"

definition title_keeps :: "jschar \<Rightarrow> bool" where
  "title_keeps c = (is_alnum c \<or> is_space c)"

text \<open>
  The fields of a string cut at every code unit that satisfies \<open>P\<close>: one more
  field than there are such code units, some of them possibly empty.
\<close>

fun fields_where :: "(jschar \<Rightarrow> bool) \<Rightarrow> jsstring \<Rightarrow> jsstring list" where
  "fields_where P [] = [[]]"
| "fields_where P (c # cs) =
     (if P c then [] # fields_where P cs
      else (case fields_where P cs of [] \<Rightarrow> [[c]] | f # fs \<Rightarrow> (c # f) # fs))"

text \<open>
  The title segment as the specification words it: remove what is not a
  letter, a digit or whitespace (the letters and digits of the code), trim,
  split on whitespace, take at most three tokens, concatenate. "Split on
  whitespace" is read either as cutting at every whitespace code unit
  (\<open>keep_empty\<close>) or as taking the maximal runs of other code units.
\<close>

definition spec_title_segment :: "bool \<Rightarrow> jsstring \<Rightarrow> jsstring" where
  "spec_title_segment keep_empty t =
     (let fields = fields_where is_space (trim (filter title_keeps t));
          tokens = (if keep_empty then fields else filter (\<lambda>f. f \<noteq> []) fields)
      in concat (take 3 tokens))"






text \<open>A number from 0 to 99 written with two decimal digits.\<close>

definition two_digits :: "int \<Rightarrow> jsstring" where
  "two_digits n = [48 + of_nat (nat (n div 10)), 48 + of_nat (nat (n mod 10))]"

text \<open>The alerts shown, the files saved and the requests sent among a list of events.\<close>

fun alerts :: "event list \<Rightarrow> jsstring list" where
  "alerts [] = []"
| "alerts (Alert m # es) = m # alerts es"
| "alerts (e # es) = alerts es"

fun saved_files :: "event list \<Rightarrow> (jsstring \<times> bytes) list" where
  "saved_files [] = []"
| "saved_files (Saved name content # es) = (name, content) # saved_files es"
| "saved_files (e # es) = saved_files es"

fun requests :: "event list \<Rightarrow> jsstring list" where
  "requests [] = []"
| "requests (Request url # es) = url # requests es"
| "requests (e # es) = requests es"

text \<open>The object URLs created and revoked among a list of events.\<close>

fun created :: "event list \<Rightarrow> nat list" where
  "created [] = []"
| "created (Created u # es) = u # created es"
| "created (e # es) = created es"

fun revoked :: "event list \<Rightarrow> nat list" where
  "revoked [] = []"
| "revoked (Revoked u # es) = u # revoked es"
| "revoked (e # es) = revoked es"


text \<open>Example values: a browser just started, a search result, two hosts.\<close>

abbreviation fresh_world :: world where
  "fresh_world \<equiv>
     \<lparr>blob_store = (\<lambda>u. None), urls_created = 0, nodes_created = 0, body = [], trace = []\<rparr>"

abbreviation example_result :: SearchResult where
  "example_result \<equiv>
     \<lparr>uid = str ''abc123'', title = str ''Full Council Meeting - March'',
      snippet = str ''the [council] met'', datetime = str ''2024-03-05T10:00:00Z'',
      start_time = str ''10:00'', link = str ''https://example.org/v/1'',
      authority = str ''council''\<rparr>"

abbreviation offline_host :: host where
  "offline_host \<equiv>
     \<lparr>API_BASE = str ''/api'', network = (\<lambda>url. NetworkError), unicode_upper = (\<lambda>s. s),
      host_date_parse = (\<lambda>s. NaN), LocalTZA = (\<lambda>t. 0)\<rparr>"

abbreviation online_host :: host where
  "online_host \<equiv>
     \<lparr>API_BASE = str ''/api'', network = (\<lambda>url. Response 200 [104, 105]),
      unicode_upper = (\<lambda>s. s), host_date_parse = (\<lambda>s. NaN), LocalTZA = (\<lambda>t. 0)\<rparr>"

section \<open>Properties\<close>

lemma slice_from_1: "slice_js xs 1 None = drop 1 xs"
  by (simp add: slice_js_def relative_index_def Let_def min_def)

lemma charAt_0: "charAt s 0 = take 1 s"
  by (cases s) (simp_all add: charAt_def)


lemma toUpperCase_ascii_unit:
  "is_ascii c \<Longrightarrow> toUpperCase uc [c] = [ascii_upper c]"
  by (simp add: toUpperCase_def)

subsection \<open>The title segment\<close>

lemma run_strip_re:
  "run strip_re s 0 st caps =
     (case s of [] \<Rightarrow> None | c # cs \<Rightarrow> if title_keeps c then None else Some (1, caps))"
  by (cases s) (simp_all add: strip_re_def title_keeps_def is_alnum_def)

lemma exec_here_strip_re:
  "exec_here strip_re s =
     (case s of [] \<Rightarrow> None | c # cs \<Rightarrow> if title_keeps c then None else Some (1, []))"
proof -
  have "length (filter is_open strip_re) = 0"
    by (simp add: strip_re_def)
  then show ?thesis
    by (simp add: exec_here_def run_strip_re split: list.splits)
qed

lemma replace_from_strip_re: "replace_from strip_re [] pre s = filter title_keeps s"
  by (induction s arbitrary: pre) (simp_all add: exec_here_strip_re)

lemma replace_strip_re: "replace t strip_re (str '''') = filter title_keeps t"
  by (simp add: replace_def str_def replace_from_strip_re)

lemma fields_where_not_Nil: "fields_where P s \<noteq> []"
  by (induction s) (simp_all split: list.splits)

lemma split_from_space:
  "split_from [32] tok s =
     (tok @ hd (fields_where (\<lambda>c. c = 32) s)) # tl (fields_where (\<lambda>c. c = 32) s)"
proof (induction s arbitrary: tok)
  case Nil
  show ?case by simp
next
  case (Cons c cs)
  show ?case
  proof (cases "c = 32")
    case True
    then show ?thesis
      using fields_where_not_Nil [of "\<lambda>c. c = 32" cs] by (simp add: Cons.IH)
  next
    case False
    then show ?thesis
      using fields_where_not_Nil [of "\<lambda>c. c = 32" cs]
      by (simp add: Cons.IH split: list.splits)
  qed
qed

lemma split_space: "split s (str '' '') = fields_where (\<lambda>c. c = 32) s"
  using fields_where_not_Nil [of "\<lambda>c. c = 32" s]
  by (simp add: split_def str_def split_from_space)

lemma slice_js_first_3: "slice_js xs 0 (Some 3) = take 3 xs"
  by (simp add: slice_js_def relative_index_def Let_def min_def)

lemma join_empty_sep: "join xs [] = concat xs"
  by (induction xs "[] :: jsstring" rule: join.induct) simp_all

lemma title_segment_fields:
  "title_segment t = concat (take 3 (fields_where (\<lambda>c. c = 32) (trim (filter title_keeps t))))"
  by (simp add: title_segment_def replace_strip_re split_space slice_js_first_3)
    (simp add: str_def join_empty_sep)

lemma fields_where_cong:
  "(\<And>c. c \<in> set s \<Longrightarrow> P c = Q c) \<Longrightarrow> fields_where P s = fields_where Q s"
  by (induction s) simp_all

lemma set_trim: "set (trim s) \<subseteq> set s"
proof -
  have "set (trim s) \<subseteq> set (dropWhile is_space s)"
    unfolding trim_def set_rev using set_dropWhileD by fastforce
  also have "\<dots> \<subseteq> set s"
    using set_dropWhileD by fastforce
  finally show ?thesis .
qed

lemma trim_eq_Nil: "trim s = [] \<longleftrightarrow> list_all is_space s"
proof
  assume "trim s = []"
  then have "dropWhile is_space (rev (dropWhile is_space s)) = []"
    by (simp add: trim_def)
  then have all: "\<forall>x\<in>set (dropWhile is_space s). is_space x"
    by simp
  have "dropWhile is_space s = []"
  proof (cases "dropWhile is_space s")
    case Nil
    then show ?thesis .
  next
    case (Cons x xs)
    then have "\<not> is_space x"
      using hd_dropWhile [of is_space s] by simp
    with all Cons show ?thesis by simp
  qed
  then show "list_all is_space s"
    by (simp add: list_all_iff)
next
  assume "list_all is_space s"
  then have d: "dropWhile is_space s = []"
    by (simp add: list_all_iff)
  show "trim s = []"
    unfolding trim_def d by simp
qed

lemma alnum_not_space: "is_alnum c \<Longrightarrow> \<not> is_space c"
  unfolding is_alnum_def is_space_def is_white_space_def is_line_terminator_def
  by (auto simp add: word_le_nat_alt)

lemma sanitized_empty_iff:
  "trim (replace t strip_re (str '''')) = [] \<longleftrightarrow> \<not> list_ex is_alnum t"
  unfolding replace_strip_re trim_eq_Nil
  by (auto simp add: list_all_iff list_ex_iff title_keeps_def alnum_not_space)

subsection \<open>The highlighted snippet\<close>





















subsection \<open>The calendar\<close>



lemma year_of_day_bounds:
  "DayFromYear (year_of_day d) \<le> d \<and> d < DayFromYear (year_of_day d) + DaysInYear (year_of_day d)"
proof -
  define n where "n = d + 134774"
  define n400 where "n400 = n div 146097"
  define r where "r = n mod 146097"
  define n100 where "n100 = min (r div 36524) 3"
  define r2 where "r2 = r - n100 * 36524"
  define n4 where "n4 = r2 div 1461"
  define r3 where "r3 = r2 mod 1461"
  define n1 where "n1 = min (r3 div 365) 3"
  define k where "k = 400 * n400 + 100 * n100 + 4 * n4 + n1"
  define dwy where "dwy = r3 - 365 * n1"
  have y: "year_of_day d = 1601 + k"
    unfolding year_of_day_def Let_def k_def n1_def r3_def n4_def r2_def n100_def r_def
      n400_def n_def
    by (simp only: add.assoc)
  have r: "0 \<le> r" "r < 146097" "n = 146097 * n400 + r"
    by (simp_all add: r_def n400_def)
  define q where "q = r div 36524"
  define m where "m = r mod 36524"
  have q100: "r = 36524 * q + m" "0 \<le> m" "m < 36524"
    by (simp_all add: q_def m_def)
  have q_range: "0 \<le> q" "q \<le> 4"
    using r q100 by linarith+
  have n100: "0 \<le> n100" "n100 \<le> 3" "n100 = min q 3"
    using q_range by (simp_all add: n100_def q_def)
  have r2: "0 \<le> r2 \<and> r2 \<le> 36524 \<and> (n100 < 3 \<longrightarrow> r2 < 36524)"
  proof (cases "q \<le> 3")
    case True
    then have "n100 = q" using n100 by simp
    then have "r2 = m" using q100 by (simp add: r2_def)
    then show ?thesis using q100 by simp
  next
    case False
    then have q4': "q = 4" using q_range by simp
    then have n3: "n100 = 3" using n100 by simp
    then have "r2 = 36524 + m" using q100 q4' by (simp add: r2_def)
    moreover have "m = 0" using q100 q4' r by linarith
    ultimately show ?thesis using n3 by simp
  qed
  have q4: "r2 = 1461 * n4 + r3" "0 \<le> r3" "r3 < 1461"
    by (simp_all add: n4_def r3_def)
  have n4: "0 \<le> n4" "n4 \<le> 24" "n100 < 3 \<longrightarrow> n4 < 24 \<or> r3 < 1460"
    using r2 q4 by linarith+
  define q' where "q' = r3 div 365"
  define m' where "m' = r3 mod 365"
  have q1: "r3 = 365 * q' + m'" "0 \<le> m'" "m' < 365"
    by (simp_all add: q'_def m'_def)
  have q'_range: "0 \<le> q'" "q' \<le> 4"
    using q4 q1 by linarith+
  have n1: "0 \<le> n1" "n1 \<le> 3" "n1 = min q' 3"
    using q'_range by (simp_all add: n1_def q'_def)
  have dwy: "0 \<le> dwy \<and> dwy \<le> 365 \<and> (n1 < 3 \<longrightarrow> dwy < 365) \<and> (dwy = 365 \<longrightarrow> r3 = 1460)"
  proof (cases "q' \<le> 3")
    case True
    then have "n1 = q'" using n1 by simp
    then have "dwy = m'" using q1 by (simp add: dwy_def)
    then show ?thesis using q1 by simp
  next
    case False
    then have q4': "q' = 4" using q'_range by simp
    then have n3: "n1 = 3" using n1 by simp
    then have "dwy = 365 + m'" using q1 q4' by (simp add: dwy_def)
    moreover have "m' = 0" using q1 q4' q4 by linarith
    ultimately show ?thesis using n3 q1 q4' by simp
  qed
  have d: "d = 146097 * n400 + 36524 * n100 + 1461 * n4 + 365 * n1 + dwy - 134774"
    using r q4 by (simp add: n_def r2_def dwy_def)
  have d400: "(1601 + k - 1601) div 400 = n400"
    by (rule int_div_pos_eq [where r = "100 * n100 + 4 * n4 + n1"])
      (use n100 n4 n1 in \<open>simp_all add: k_def\<close>)
  have d100: "(1601 + k - 1901) div 100 = 4 * n400 + n100 - 3"
    by (rule int_div_pos_eq [where r = "4 * n4 + n1"])
      (use n100 n4 n1 in \<open>simp_all add: k_def\<close>)
  have d4: "(1601 + k - 1969) div 4 = 100 * n400 + 25 * n100 + n4 - 92"
    by (rule int_div_pos_eq [where r = "n1"])
      (use n100 n4 n1 in \<open>simp_all add: k_def\<close>)
  have dfy: "DayFromYear (1601 + k) = d - dwy"
    unfolding DayFromYear_def d400 d100 d4 by (simp add: d k_def)
  have "1601 + k = (1 + n1) + 4 * (400 + 100 * n400 + 25 * n100 + n4)"
    by (simp add: k_def)
  then have m4: "(1601 + k) mod 4 = (1 + n1) mod 4"
    by (simp only: mod_mult_self2)
  have "1601 + k = (1 + 4 * n4 + n1) + 100 * (16 + 4 * n400 + n100)"
    by (simp add: k_def)
  then have m100: "(1601 + k) mod 100 = (1 + 4 * n4 + n1) mod 100"
    by (simp only: mod_mult_self2)
  have "1601 + k = (1 + 100 * n100 + 4 * n4 + n1) + 400 * (4 + n400)"
    by (simp add: k_def)
  then have m400: "(1601 + k) mod 400 = (1 + 100 * n100 + 4 * n4 + n1) mod 400"
    by (simp only: mod_mult_self2)
  have leap: "dwy < DaysInYear (1601 + k)"
  proof (cases "dwy = 365")
    case False
    with dwy have "dwy < 365" by simp
    then show ?thesis by (simp add: DaysInYear_def)
  next
    case True
    with dwy have n13: "n1 = 3" and r3: "r3 = 1460"
      using n1 by auto
    have y4: "(1601 + k) mod 4 = 0"
      using m4 n13 by simp
    show ?thesis
    proof (cases "n4 = 24")
      case False
      with n4 have "n4 < 24" by simp
      then have "(1 + 4 * n4 + n1) mod 100 = 4 + 4 * n4"
        using n4 n13 by simp
      then have "(1601 + k) mod 100 \<noteq> 0"
        using m100 n4 by simp
      with y4 show ?thesis
        using True by (simp add: DaysInYear_def)
    next
      case n424: True
      with n4 r3 have "n100 = 3"
        using n100 by auto
      then have "(1601 + k) mod 400 = 0"
        using m400 n424 n13 by simp
      moreover have "(1601 + k) mod 100 = 0"
        using m100 n424 n13 by simp
      ultimately have "DaysInYear (1601 + k) = 366"
        using y4 by (simp add: DaysInYear_def)
      then show ?thesis
        using True by simp
    qed
  qed
  from dfy leap dwy show ?thesis
    unfolding y by simp
qed

lemma DaysInYear_leap: "DaysInYear y = 365 + leap_of_year y"
  by (simp add: DaysInYear_def leap_of_year_def)

lemma leap_of_year_range: "leap_of_year y = 0 \<or> leap_of_year y = 1"
  by (simp add: leap_of_year_def)

lemma DayWithinYear_bounds:
  "0 \<le> DayWithinYear t \<and> DayWithinYear t < 365 + InLeapYear t"
  using year_of_day_bounds [of "Day t"]
  by (simp add: DayWithinYear_def YearFromTime_def InLeapYear_def DaysInYear_leap)

lemma MonthFromTime_bounds: "0 \<le> MonthFromTime t \<and> MonthFromTime t \<le> 11"
  by (simp add: MonthFromTime_def Let_def)

lemma DateFromTime_month_start:
  "DateFromTime t = DayWithinYear t - month_start (MonthFromTime t) (InLeapYear t) + 1"
  using MonthFromTime_bounds [of t]
  by (simp add: DateFromTime_def month_start_def Let_def)

lemma DateFromTime_bounds: "1 \<le> DateFromTime t \<and> DateFromTime t \<le> 31"
proof -
  define d where "d = DayWithinYear t"
  define l where "l = InLeapYear t"
  have d: "0 \<le> d" "d < 365 + l"
    using DayWithinYear_bounds [of t] by (simp_all add: d_def l_def)
  have l: "l = 0 \<or> l = 1"
    using leap_of_year_range by (simp add: l_def InLeapYear_def)
  have m: "MonthFromTime t =
     (if d < 31 then 0
         else if d < 59 + l then 1
         else if d < 90 + l then 2
         else if d < 120 + l then 3
         else if d < 151 + l then 4
         else if d < 181 + l then 5
         else if d < 212 + l then 6
         else if d < 243 + l then 7
         else if d < 273 + l then 8
         else if d < 304 + l then 9
         else if d < 334 + l then 10
         else 11)"
    by (simp add: MonthFromTime_def Let_def d_def l_def)
  show ?thesis
    unfolding DateFromTime_month_start m d_def [symmetric] l_def [symmetric]
    using d l by (auto simp add: month_start_def)
qed


subsection \<open>The date segment\<close>


lemma nat_digits_small: "n < 10 \<Longrightarrow> nat_digits n = [48 + of_nat n]"
  by (subst nat_digits.simps) simp

lemma nat_digits_step:
  "10 \<le> n \<Longrightarrow> nat_digits n = nat_digits (n div 10) @ [48 + of_nat (n mod 10)]"
  by (subst nat_digits.simps) simp


lemma padStart_two_digits:
  assumes "0 \<le> n" "n \<le> 99"
  shows "padStart (String_of (Finite n)) 2 (str ''0'') = two_digits n"
proof (cases "n < 10")
  case True
  then have "nat n < 10" "n div 10 = 0" "n mod 10 = n"
    using assms by auto
  then show ?thesis
    using assms by (simp add: nat_digits_small padStart_def two_digits_def str_def)
next
  case False
  then have "10 \<le> nat n" "nat n div 10 < 10"
    using assms by auto
  moreover have "nat n div 10 = nat (n div 10)" "nat n mod 10 = nat (n mod 10)"
    using assms by (simp_all add: nat_div_distrib nat_mod_distrib)
  ultimately show ?thesis
    using assms by (simp add: nat_digits_step nat_digits_small padStart_def two_digits_def)
qed

lemma date_str_Finite:
  assumes "new_Date hp dt = Finite t"
  shows "date_str hp tza dt =
     String_of (Finite (YearFromTime (LocalTime tza t))) @ str ''-''
       @ two_digits (MonthFromTime (LocalTime tza t) + 1) @ str ''-''
       @ two_digits (DateFromTime (LocalTime tza t))"
proof -
  have m: "padStart (String_of (Finite (MonthFromTime (LocalTime tza t) + 1))) 2 (str ''0'') =
      two_digits (MonthFromTime (LocalTime tza t) + 1)"
    using MonthFromTime_bounds [of "LocalTime tza t"] by (intro padStart_two_digits) simp_all
  have d: "padStart (String_of (Finite (DateFromTime (LocalTime tza t)))) 2 (str ''0'') =
      two_digits (DateFromTime (LocalTime tza t))"
    using DateFromTime_bounds [of "LocalTime tza t"] by (intro padStart_two_digits) simp_all
  show ?thesis
    unfolding date_str_def Let_def assms getDate_def getMonth_def getFullYear_def
    by (simp only: number.case plus_number.simps m d)
qed

subsection \<open>Runs of downloadTranscript\<close>


lemma axios_get_rejected:
  "rejected (network h url) \<Longrightarrow>
   axios_get h url w = (Inl (AxiosError (network h url)), w\<lparr>trace := trace w @ [Request url]\<rparr>)"
  by (cases "network h url") (auto simp add: axios_get_def rejected_def Let_def)

lemma axios_get_fulfilled:
  "network h url = Response status data \<Longrightarrow> 200 \<le> status \<Longrightarrow> status < 300 \<Longrightarrow>
   axios_get h url w = (Inr data, w\<lparr>trace := trace w @ [Request url]\<rparr>)"
  by (simp add: axios_get_def Let_def)

lemma not_rejectedE:
  assumes "\<not> rejected out"
  obtains status data where "out = Response status data" "200 \<le> status" "status < 300"
  using assms by (cases out) (auto simp: rejected_def)

lemma downloadTranscript_rejected:
  assumes "rejected (network h (transcript_url h this))"
  shows "downloadTranscript h this w =
    (Returned, this,
     w\<lparr>trace := trace w @
        [Request (transcript_url h this),
         ConsoleError (str ''Error downloading transcript:'')
           (AxiosError (network h (transcript_url h this))),
         Alert (str ''Failed to download transcript. Please try again.'')]\<rparr>)"
  by (simp add: downloadTranscript_def try_block_def axios_get_rejected [OF assms]
      console_error_def alert_def)

lemma downloadTranscript_fulfilled:
  assumes "network h (transcript_url h this) = Response status data"
    and "200 \<le> status" and "status < 300"
  shows "downloadTranscript h this w =
    (Returned, this,
     w\<lparr>blob_store := (blob_store w)(urls_created w := None),
       urls_created := Suc (urls_created w),
       nodes_created := Suc (nodes_created w),
       body := filter (\<lambda>b. node b \<noteq> nodes_created w) (body w),
       trace := trace w @
        [Request (transcript_url h this),
         Created (urls_created w),
         Saved (filename h (result this)) data,
         Revoked (urls_created w)]\<rparr>)"
  by (simp add: downloadTranscript_def try_block_def axios_get_fulfilled [OF assms]
      createObjectURL_def new_Blob_def createElement_a_def appendChild_def click_def
      remove_def revokeObjectURL_def Let_def)

lemma date_str_NaN:
  "new_Date hp dt = NaN \<Longrightarrow> date_str hp tza dt = str ''NaN-NaN-NaN''"
  by (simp add: date_str_def Let_def getDate_def getMonth_def getFullYear_def padStart_def str_def)

lemma title_example: "title_segment (str ''Full Council Meeting - March'') = str ''FullCouncilMeeting''"
  by code_simp

lemma parse_example: "parse_utc_timestamp (str ''2024-03-05T10:00:00Z'') = Some 1709632800000"
  by code_simp

lemma new_Date_example: "new_Date hp (str ''2024-03-05T10:00:00Z'') = Finite 1709632800000"
  by (simp add: new_Date_def Date_parse_def parse_example TimeClip_def)

lemma Day_example:
  assumes "- 36000000 \<le> off" "off < 50400000"
  shows "Day (1709632800000 + off) = 19787"
  unfolding Day_def msPerDay_def
  by (rule int_div_pos_eq [where r = "off + 36000000"]) (use assms in simp_all)

lemma ymd_19787:
  assumes "Day t = 19787"
  shows "YearFromTime t = 2024" "MonthFromTime t = 2" "DateFromTime t = 5"
proof -
  have y: "year_of_day 19787 = 2024" by code_simp
  have d: "DayFromYear 2024 = 19723" by code_simp
  have l: "leap_of_year 2024 = 1" by code_simp
  show "YearFromTime t = 2024" by (simp add: YearFromTime_def assms y)
  then show m: "MonthFromTime t = 2"
    by (simp add: MonthFromTime_def DayWithinYear_def InLeapYear_def assms d l)
  show "DateFromTime t = 5"
    by (simp add: DateFromTime_def m DayWithinYear_def InLeapYear_def YearFromTime_def assms y d l)
qed

lemma nat_digits_2024: "nat_digits 2024 = str ''2024''" by code_simp
lemma nat_digits_3: "nat_digits 3 = str ''3''" by code_simp
lemma nat_digits_5: "nat_digits 5 = str ''5''" by code_simp

lemma date_str_example:
  assumes "- 36000000 \<le> tza 1709632800000" "tza 1709632800000 < 50400000"
  shows "date_str hp tza (str ''2024-03-05T10:00:00Z'') = str ''2024-03-05''"
proof -
  have "Day (LocalTime tza 1709632800000) = 19787"
    unfolding LocalTime_def using assms by (rule Day_example)
  note ymd = ymd_19787 [OF this]
  show ?thesis
    unfolding date_str_def Let_def new_Date_example
    by (simp add: getDate_def getMonth_def getFullYear_def ymd
        nat_digits_2024 nat_digits_3 nat_digits_5 padStart_def str_def)
qed

lemma new_events_rejected:
  assumes "rejected (network h (transcript_url h this))"
  shows "new_events h this w =
    [Request (transcript_url h this),
     ConsoleError (str ''Error downloading transcript:'')
       (AxiosError (network h (transcript_url h this))),
     Alert (str ''Failed to download transcript. Please try again.'')]"
  by (simp add: new_events_def downloadTranscript_rejected [OF assms])

lemma new_events_fulfilled:
  assumes "network h (transcript_url h this) = Response status data"
    and "200 \<le> status" and "status < 300"
  shows "new_events h this w =
    [Request (transcript_url h this), Created (urls_created w),
     Saved (filename h (result this)) data, Revoked (urls_created w)]"
  by (simp add: new_events_def downloadTranscript_fulfilled [OF assms])

lemma trace_extends:
  "trace (snd (snd (downloadTranscript h this w))) = trace w @ new_events h this w"
proof (cases "rejected (network h (transcript_url h this))")
  case True
  then show ?thesis
    by (simp add: new_events_def downloadTranscript_rejected)
next
  case False
  then obtain status data where "network h (transcript_url h this) = Response status data"
    "200 \<le> status" "status < 300"
    by (rule not_rejectedE)
  then show ?thesis
    by (simp add: new_events_def downloadTranscript_fulfilled)
qed

lemma filename_example:
  assumes "authority r = str ''council''" "title r = str ''Full Council Meeting - March''"
    "datetime r = str ''2024-03-05T10:00:00Z''"
  shows "filename h r =
     str ''Council-FullCouncilMeeting-[''
       @ date_str (host_date_parse h) (LocalTZA h) (str ''2024-03-05T10:00:00Z'') @ str ''].txt''"
proof -
  have a: "authority_segment (unicode_upper h) (str ''council'') = str ''Council''"
    by (simp add: authority_segment_def charAt_0 slice_from_1 str_def toUpperCase_def
        is_ascii_def ascii_upper_def)
  show ?thesis
    unfolding filename_def assms a title_example
    by (simp add: str_def)
qed

text \<open>
  C1. For the search result with authority \<^verbatim>\<open>council\<close>, title
  \<^verbatim>\<open>Full Council Meeting - March\<close>, datetime \<^verbatim>\<open>2024-03-05T10:00:00Z\<close> and uid
  \<^verbatim>\<open>abc123\<close>, a call of \<open>downloadTranscript\<close> whose fetch succeeds requests
  \<^verbatim>\<open>{API_BASE}/meetings/download_transcript/abc123\<close> and saves exactly the bytes
  of the response body, once, under the name \<^verbatim>\<open>Council-FullCouncilMeeting-[\<close>, the
  local date of the instant 10:00 UTC on 5 March 2024, \<^verbatim>\<open>].txt\<close>. In every time
  zone where that instant falls on 5 March (offsets from -10 hours up to, not
  including, +14 hours) the name is
  \<^verbatim>\<open>Council-FullCouncilMeeting-[2024-03-05].txt\<close>.
\<close>

theorem end_to_end_example:
  fixes h :: host and lt :: int
  defines "lt \<equiv> LocalTime (LocalTZA h) 1709632800000"
  assumes "uid (result this) = str ''abc123''"
    and "authority (result this) = str ''council''"
    and "title (result this) = str ''Full Council Meeting - March''"
    and "datetime (result this) = str ''2024-03-05T10:00:00Z''"
    and "network h (API_BASE h @ str ''/meetings/download_transcript/abc123'') = Response status data"
    and "200 \<le> status" and "status < 300"
  shows "new_events h this w =
      [Request (API_BASE h @ str ''/meetings/download_transcript/abc123''),
       Created (urls_created w),
       Saved (str ''Council-FullCouncilMeeting-['' @ String_of (Finite (YearFromTime lt))
                @ str ''-'' @ two_digits (MonthFromTime lt + 1)
                @ str ''-'' @ two_digits (DateFromTime lt) @ str ''].txt'') data,
       Revoked (urls_created w)]
    \<and> (- 36000000 \<le> LocalTZA h 1709632800000 \<and> LocalTZA h 1709632800000 < 50400000 \<longrightarrow>
         saved_files (new_events h this w) =
           [(str ''Council-FullCouncilMeeting-[2024-03-05].txt'', data)])
    \<and> fst (downloadTranscript h this w) = Returned"
proof -
  have url: "transcript_url h this = API_BASE h @ str ''/meetings/download_transcript/abc123''"
    by (simp add: transcript_url_def assms(2) str_def)
  have net: "network h (transcript_url h this) = Response status data"
    by (simp add: url assms(6))
  note ok = net assms(7,8)
  have name: "filename h (result this) =
      str ''Council-FullCouncilMeeting-[''
        @ date_str (host_date_parse h) (LocalTZA h) (str ''2024-03-05T10:00:00Z'')
        @ str ''].txt''"
    using assms(3,4,5) by (rule filename_example)
  have any_zone: "date_str (host_date_parse h) (LocalTZA h) (str ''2024-03-05T10:00:00Z'') =
      String_of (Finite (YearFromTime lt)) @ str ''-'' @ two_digits (MonthFromTime lt + 1)
        @ str ''-'' @ two_digits (DateFromTime lt)"
    unfolding lt_def by (rule date_str_Finite) (rule new_Date_example)
  have events: "new_events h this w =
      [Request (API_BASE h @ str ''/meetings/download_transcript/abc123''),
       Created (urls_created w),
       Saved (str ''Council-FullCouncilMeeting-['' @ String_of (Finite (YearFromTime lt))
                @ str ''-'' @ two_digits (MonthFromTime lt + 1)
                @ str ''-'' @ two_digits (DateFromTime lt) @ str ''].txt'') data,
       Revoked (urls_created w)]"
    unfolding new_events_fulfilled [OF ok] name any_zone url by simp
  have march_5: "saved_files (new_events h this w) =
      [(str ''Council-FullCouncilMeeting-[2024-03-05].txt'', data)]"
    if "- 36000000 \<le> LocalTZA h 1709632800000 \<and> LocalTZA h 1709632800000 < 50400000"
  proof -
    from that
    have "date_str (host_date_parse h) (LocalTZA h) (str ''2024-03-05T10:00:00Z'') =
        str ''2024-03-05''"
      by (intro date_str_example) simp_all
    then have "filename h (result this) = str ''Council-FullCouncilMeeting-[2024-03-05].txt''"
      unfolding name by (simp add: str_def)
    then show ?thesis
      by (simp add: new_events_fulfilled [OF ok])
  qed
  have returned: "fst (downloadTranscript h this w) = Returned"
    by (simp add: downloadTranscript_fulfilled [OF ok])
  from events march_5 returned show ?thesis
    by blast
qed

theorem end_to_end_example_witness:
  "new_events online_host \<lparr>result = example_result\<rparr> fresh_world =
      [Request (str ''/api/meetings/download_transcript/abc123''), Created 0,
       Saved (str ''Council-FullCouncilMeeting-[2024-03-05].txt'') [104, 105], Revoked 0]
   \<and> saved_files (new_events online_host \<lparr>result = example_result\<rparr> fresh_world) =
       [(str ''Council-FullCouncilMeeting-[2024-03-05].txt'', [104, 105])]"
proof -
  have y: "String_of (Finite (YearFromTime (LocalTime (LocalTZA online_host) 1709632800000)))
      = str ''2024''"
    by code_simp
  have m: "two_digits (MonthFromTime (LocalTime (LocalTZA online_host) 1709632800000) + 1)
      = str ''03''"
    by code_simp
  have d: "two_digits (DateFromTime (LocalTime (LocalTZA online_host) 1709632800000))
      = str ''05''"
    by code_simp
  show ?thesis
    using end_to_end_example
      [where this = "\<lparr>result = example_result\<rparr>" and h = online_host and status = 200
        and data = "[104, 105]" and w = fresh_world]
    unfolding y m d by (simp add: str_def)
qed

text \<open>
  C2. The claim as stated (split on whitespace) fails: a tab is whitespace
  and stays in the title segment, since the code splits at the space U+0020
  only; and two adjacent spaces, as left by a removed hyphen, delimit an empty
  token that counts among the first three. The letters kept are the ASCII
  letters only: the letter U+00E9 is removed.
\<close>

theorem title_segment_spec_counterexample:
  "title_segment (str ''Planning'' @ [9] @ str ''Committee Agenda Item 4'')
     = str ''Planning'' @ [9] @ str ''CommitteeAgendaItem''
   \<and> spec_title_segment True (str ''Planning'' @ [9] @ str ''Committee Agenda Item 4'')
     = str ''PlanningCommitteeAgenda''
   \<and> spec_title_segment False (str ''Planning'' @ [9] @ str ''Committee Agenda Item 4'')
     = str ''PlanningCommitteeAgenda''
   \<and> title_segment (str ''Council - Budget Review 2024'') = str ''CouncilBudget''
   \<and> spec_title_segment False (str ''Council - Budget Review 2024'') = str ''CouncilBudgetReview''
   \<and> title_segment (str ''Caf'' @ [233] @ str '' Menu'') = str ''CafMenu''"
  by code_simp

text \<open>
  C2, amended. The title segment is obtained by removing every code unit that
  is not an ASCII letter, an ASCII digit or whitespace, trimming whitespace at
  both ends, cutting at every single space U+0020 (other whitespace does not
  cut, and adjacent spaces give empty fields), taking at most the first three
  fields and concatenating them. When the only whitespace in the title is
  the space U+0020, this is the result of cutting at every whitespace code
  unit. \<^verbatim>\<open>Budget Review: Q3!!\<close> gives \<^verbatim>\<open>BudgetReviewQ3\<close>.
\<close>

theorem title_segment_first_three_space_fields:
  "title_segment t = concat (take 3 (fields_where (\<lambda>c. c = 32) (trim (filter title_keeps t))))
   \<and> (list_all (\<lambda>c. is_space c \<longrightarrow> c = 32) t \<longrightarrow> title_segment t = spec_title_segment True t)
   \<and> title_segment (str ''Budget Review: Q3!!'') = str ''BudgetReviewQ3''"
proof -
  have eq: "title_segment t =
      concat (take 3 (fields_where (\<lambda>c. c = 32) (trim (filter title_keeps t))))"
    by (rule title_segment_fields)
  have agree: "title_segment t = spec_title_segment True t"
    if only: "list_all (\<lambda>c. is_space c \<longrightarrow> c = 32) t"
  proof -
    have "is_space 32"
      by (simp add: is_space_def is_white_space_def)
    moreover have "set (trim (filter title_keeps t)) \<subseteq> set t"
      using set_trim [of "filter title_keeps t"] by auto
    ultimately have "(c = 32) = is_space c" if "c \<in> set (trim (filter title_keeps t))" for c
      using that only by (auto simp add: list_all_iff)
    then have "fields_where (\<lambda>c. c = 32) (trim (filter title_keeps t)) =
        fields_where is_space (trim (filter title_keeps t))"
      by (rule fields_where_cong)
    then show ?thesis
      by (simp add: eq spec_title_segment_def)
  qed
  have ex: "title_segment (str ''Budget Review: Q3!!'') = str ''BudgetReviewQ3''"
    by code_simp
  from eq agree ex show ?thesis
    by blast
qed

theorem title_segment_first_three_space_fields_witness:
  "list_all (\<lambda>c. is_space c \<longrightarrow> c = 32) (str ''Full Council Meeting - March'')
   \<and> title_segment (str ''Full Council Meeting - March'') =
       spec_title_segment True (str ''Full Council Meeting - March'')"
proof -
  have "list_all (\<lambda>c. is_space c \<longrightarrow> c = 32) (str ''Full Council Meeting - March'')"
    by (simp add: str_def is_space_def is_white_space_def is_line_terminator_def)
  with title_segment_first_three_space_fields [of "str ''Full Council Meeting - March''"]
  show ?thesis
    by blast
qed




text \<open>
  C4. When the fetch fails (no response, or a status that is not \<open>2xx\<close>), the
  call of \<open>downloadTranscript\<close> completes normally: the error is caught and not
  thrown to the caller. The call sends the one request, logs the error on the
  console and shows one alert, in this order and nothing else: exactly one
  alert, no file saved, no second request.
\<close>

theorem failed_fetch_caught_and_alerted_once:
  assumes "rejected (network h (transcript_url h this))"
  shows "fst (downloadTranscript h this w) = Returned
    \<and> new_events h this w =
        [Request (transcript_url h this),
         ConsoleError (str ''Error downloading transcript:'')
           (AxiosError (network h (transcript_url h this))),
         Alert (str ''Failed to download transcript. Please try again.'')]
    \<and> alerts (new_events h this w) = [str ''Failed to download transcript. Please try again.'']
    \<and> saved_files (new_events h this w) = []
    \<and> requests (new_events h this w) = [transcript_url h this]
    \<and> trace (snd (snd (downloadTranscript h this w))) = trace w @ new_events h this w"
  by (simp add: new_events_rejected [OF assms] trace_extends)
    (simp add: downloadTranscript_rejected [OF assms])

theorem failed_fetch_caught_and_alerted_once_witness:
  "rejected (network offline_host (transcript_url offline_host \<lparr>result = example_result\<rparr>))
   \<and> fst (downloadTranscript offline_host \<lparr>result = example_result\<rparr> fresh_world) = Returned
   \<and> alerts (new_events offline_host \<lparr>result = example_result\<rparr> fresh_world) =
       [str ''Failed to download transcript. Please try again.'']
   \<and> saved_files (new_events offline_host \<lparr>result = example_result\<rparr> fresh_world) = []"
proof -
  have r: "rejected (network offline_host (transcript_url offline_host \<lparr>result = example_result\<rparr>))"
    by (simp add: rejected_def)
  from failed_fetch_caught_and_alerted_once [OF r, of fresh_world] r show ?thesis
    by blast
qed

text \<open>
  C5. A call of \<open>downloadTranscript\<close> whose fetch succeeds creates one object
  URL and revokes it, once, after the browser has saved the file; the URL is
  not in the blob URL store afterwards. A call whose fetch fails creates no
  object URL. On every path the object URLs revoked are the object URLs
  created, and the store holds no object URL afterwards that it did not hold
  before.
\<close>

theorem object_url_revoked_once_after_save:
  "(network h (transcript_url h this) = Response status data \<and> 200 \<le> status \<and> status < 300
      \<longrightarrow> new_events h this w =
            [Request (transcript_url h this), Created (urls_created w),
             Saved (filename h (result this)) data, Revoked (urls_created w)]
          \<and> blob_store (snd (snd (downloadTranscript h this w))) (urls_created w) = None)
   \<and> (rejected (network h (transcript_url h this)) \<longrightarrow> created (new_events h this w) = [])
   \<and> revoked (new_events h this w) = created (new_events h this w)
   \<and> length (created (new_events h this w)) \<le> 1
   \<and> dom (blob_store (snd (snd (downloadTranscript h this w)))) \<subseteq> dom (blob_store w)"
proof -
  have succ: "network h (transcript_url h this) = Response status data \<and> 200 \<le> status \<and> status < 300
      \<longrightarrow> new_events h this w =
            [Request (transcript_url h this), Created (urls_created w),
             Saved (filename h (result this)) data, Revoked (urls_created w)]
          \<and> blob_store (snd (snd (downloadTranscript h this w))) (urls_created w) = None"
    by (simp add: new_events_fulfilled downloadTranscript_fulfilled)
  have rej: "rejected (network h (transcript_url h this)) \<longrightarrow> created (new_events h this w) = []"
    by (simp add: new_events_rejected)
  have rest: "revoked (new_events h this w) = created (new_events h this w)
    \<and> length (created (new_events h this w)) \<le> 1
    \<and> dom (blob_store (snd (snd (downloadTranscript h this w)))) \<subseteq> dom (blob_store w)"
  proof (cases "rejected (network h (transcript_url h this))")
    case True
    then show ?thesis
      by (simp add: new_events_rejected downloadTranscript_rejected)
  next
    case False
    then obtain st d where ok: "network h (transcript_url h this) = Response st d"
      "200 \<le> st" "st < 300"
      by (rule not_rejectedE)
    show ?thesis
      by (auto simp add: new_events_fulfilled [OF ok] downloadTranscript_fulfilled [OF ok]
          split: if_splits)
  qed
  from succ rej rest show ?thesis
    by blast
qed

theorem object_url_revoked_once_after_save_witness:
  "network online_host (transcript_url online_host \<lparr>result = example_result\<rparr>) = Response 200 [104, 105]
   \<and> (200::nat) \<le> 200 \<and> (200::nat) < 300
   \<and> created (new_events online_host \<lparr>result = example_result\<rparr> fresh_world) = [0]
   \<and> revoked (new_events online_host \<lparr>result = example_result\<rparr> fresh_world) = [0]
   \<and> rejected (network offline_host (transcript_url offline_host \<lparr>result = example_result\<rparr>))
   \<and> created (new_events offline_host \<lparr>result = example_result\<rparr> fresh_world) = []"
proof -
  have ok: "network online_host (transcript_url online_host \<lparr>result = example_result\<rparr>) = Response 200 [104, 105]
    \<and> (200::nat) \<le> 200 \<and> (200::nat) < 300"
    by simp
  have bad: "rejected (network offline_host (transcript_url offline_host \<lparr>result = example_result\<rparr>))"
    by (simp add: rejected_def)
  from ok object_url_revoked_once_after_save
    [of online_host "\<lparr>result = example_result\<rparr>" 200 "[104, 105]" fresh_world]
  have "new_events online_host \<lparr>result = example_result\<rparr> fresh_world =
      [Request (transcript_url online_host \<lparr>result = example_result\<rparr>),
       Created (urls_created fresh_world),
       Saved (filename online_host (result \<lparr>result = example_result\<rparr>)) [104, 105],
       Revoked (urls_created fresh_world)]"
    by blast
  then have c: "created (new_events online_host \<lparr>result = example_result\<rparr> fresh_world) = [0]"
    "revoked (new_events online_host \<lparr>result = example_result\<rparr> fresh_world) = [0]"
    by simp_all
  from bad object_url_revoked_once_after_save
    [of offline_host "\<lparr>result = example_result\<rparr>" 0 "[]" fresh_world]
  have "created (new_events offline_host \<lparr>result = example_result\<rparr> fresh_world) = []"
    by blast
  with ok bad c show ?thesis
    by blast
qed





text \<open>
  C8. When nothing of the title is left after the removal and the trimming
  (the title has no ASCII letter or digit), the title segment is empty and the
  file name is the authority segment, two hyphens, and the date segment in
  square brackets followed by \<^verbatim>\<open>.txt\<close>.
\<close>

theorem empty_title_gives_double_hyphen:
  assumes "trim (replace (title r) strip_re (str '''')) = []"
  shows "title_segment (title r) = []
    \<and> filename h r =
        authority_segment (unicode_upper h) (authority r) @ str ''--[''
          @ date_str (host_date_parse h) (LocalTZA h) (datetime r) @ str ''].txt''
    \<and> \<not> list_ex is_alnum (title r)"
proof -
  have "trim (filter title_keeps (title r)) = []"
    using assms by (simp add: replace_strip_re)
  then have t: "title_segment (title r) = []"
    by (simp add: title_segment_fields)
  have "filename h r =
        authority_segment (unicode_upper h) (authority r) @ str ''--[''
          @ date_str (host_date_parse h) (LocalTZA h) (datetime r) @ str ''].txt''"
    unfolding filename_def t by (simp add: str_def)
  with t assms show ?thesis
    by (simp add: sanitized_empty_iff)
qed

theorem empty_title_gives_double_hyphen_witness:
  "trim (replace (title (example_result\<lparr>title := str '' - ''\<rparr>)) strip_re (str '''')) = []
   \<and> filename online_host (example_result\<lparr>title := str '' - ''\<rparr>) =
       str ''Council--[2024-03-05].txt''"
proof -
  have e: "trim (replace (title (example_result\<lparr>title := str '' - ''\<rparr>)) strip_re (str '''')) = []"
    by code_simp
  have a: "authority_segment (unicode_upper online_host)
       (authority (example_result\<lparr>title := str '' - ''\<rparr>)) = str ''Council''"
    by code_simp
  have d: "date_str (host_date_parse online_host) (LocalTZA online_host)
       (datetime (example_result\<lparr>title := str '' - ''\<rparr>)) = str ''2024-03-05''"
    by code_simp
  from empty_title_gives_double_hyphen [OF e, of online_host]
  have "filename online_host (example_result\<lparr>title := str '' - ''\<rparr>) =
      str ''Council'' @ str ''--['' @ str ''2024-03-05'' @ str ''].txt''"
    unfolding a d by blast
  with e show ?thesis
    by (simp add: str_def)
qed


text \<open>
  C10. When the datetime does not parse to a valid date and the fetch
  succeeds, the date segment is \<^verbatim>\<open>NaN-NaN-NaN\<close>, the file name is the authority
  segment, a hyphen, the title segment and \<^verbatim>\<open>-[NaN-NaN-NaN].txt\<close>, and the call
  completes normally, with no alert, saving the response body under that name.
\<close>

theorem invalid_date_gives_NaN_segment:
  assumes "new_Date (host_date_parse h) (datetime (result this)) = NaN"
    and "network h (transcript_url h this) = Response status data"
    and "200 \<le> status" and "status < 300"
  shows "date_str (host_date_parse h) (LocalTZA h) (datetime (result this)) = str ''NaN-NaN-NaN''
    \<and> filename h (result this) =
        authority_segment (unicode_upper h) (authority (result this)) @ str ''-''
          @ title_segment (title (result this)) @ str ''-[NaN-NaN-NaN].txt''
    \<and> fst (downloadTranscript h this w) = Returned
    \<and> alerts (new_events h this w) = []
    \<and> saved_files (new_events h this w) = [(filename h (result this), data)]"
proof -
  have d: "date_str (host_date_parse h) (LocalTZA h) (datetime (result this)) = str ''NaN-NaN-NaN''"
    using assms(1) by (rule date_str_NaN)
  have "filename h (result this) =
        authority_segment (unicode_upper h) (authority (result this)) @ str ''-''
          @ title_segment (title (result this)) @ str ''-[NaN-NaN-NaN].txt''"
    unfolding filename_def d by (simp add: str_def)
  with d show ?thesis
    by (simp add: new_events_fulfilled [OF assms(2-4)] downloadTranscript_fulfilled [OF assms(2-4)])
qed

theorem invalid_date_gives_NaN_segment_witness:
  "new_Date (host_date_parse online_host)
      (datetime (result \<lparr>result = example_result\<lparr>datetime := str ''next Tuesday''\<rparr>\<rparr>)) = NaN
   \<and> saved_files (new_events online_host
        \<lparr>result = example_result\<lparr>datetime := str ''next Tuesday''\<rparr>\<rparr> fresh_world) =
       [(str ''Council-FullCouncilMeeting-[NaN-NaN-NaN].txt'', [104, 105])]"
proof -
  have n: "new_Date (host_date_parse online_host)
      (datetime (result \<lparr>result = example_result\<lparr>datetime := str ''next Tuesday''\<rparr>\<rparr>)) = NaN"
    by code_simp
  have nm: "filename online_host (example_result\<lparr>datetime := str ''next Tuesday''\<rparr>) =
     str ''Council-FullCouncilMeeting-[NaN-NaN-NaN].txt''"
    by code_simp
  from invalid_date_gives_NaN_segment [OF n, of 200 "[104, 105]" fresh_world] n nm
  show ?thesis
    by simp
qed

end
